theory Spec2Isabelle
  imports Complex_Main
begin

section \<open>Numbers, optional inputs and Python truthiness\<close>

text \<open>
  The calculation routines of \<^verbatim>\<open>streamlit_app.py\<close> work on Python \<^verbatim>\<open>float\<close> values
  delivered by number-input widgets; an empty widget delivers \<^verbatim>\<open>None\<close>.  Amounts are
  modelled as exact real numbers: \<^verbatim>\<open>+\<close>, \<^verbatim>\<open>-\<close>, \<^verbatim>\<open>*\<close> and \<^verbatim>\<open>/\<close> are the field
  operations, so the rounding of binary floating point, infinities and NaN are not part
  of this model.  An optional input is a \<^typ>\<open>real option\<close>.

  The routines report through the user interface.  A model function returns what the
  routine computes and shows; where the source shows an error and stops, or an exception
  leaves the routine, the model returns an \<open>error\<close>, named as the specification names
  the failure.
\<close>

datatype error = InsufficientKnownValues | ZeroDivisionError | Unbalanced

text \<open>\<^verbatim>\<open>x is not None and x != 0\<close>, which for a float-or-None is also the truth value of
  \<^verbatim>\<open>x\<close> in a Python condition.\<close>

definition truthy :: "real option \<Rightarrow> bool" where
  "truthy x = (case x of None \<Rightarrow> False | Some v \<Rightarrow> v \<noteq> 0)"

text \<open>\<^verbatim>\<open>x or y\<close>: the left operand when it is truthy, the right operand otherwise.\<close>

definition py_or :: "real option \<Rightarrow> real option \<Rightarrow> real option" where
  "py_or x y = (if truthy x then x else y)"

section \<open>The accounting equation solver\<close>

text \<open>\<^verbatim>\<open>sum([x is not None and x != 0 for x in [assets, liabilities, capital]])\<close>\<close>

definition known_values :: "real option \<Rightarrow> real option \<Rightarrow> real option \<Rightarrow> nat" where
  "known_values assets liabilities capital =
     length (filter truthy [assets, liabilities, capital])"

datatype verdict = Verified | EquationImbalance

text \<open>
  What one run of \<^verbatim>\<open>solve_equation\<close> produces: the adjusted capital of step 1
  (\<^verbatim>\<open>None\<close> when capital is absent), the dictionary \<^verbatim>\<open>solution\<close> of step 2, and
  the outcome of step 3 (\<open>None\<close> when the verification block is not entered).
\<close>

record solve_result =
  adjusted_capital :: "real option"
  solution :: "string \<rightharpoonup> real"
  verification :: "verdict option"

definition adjust_capital :: "real option \<Rightarrow> real \<Rightarrow> real \<Rightarrow> real \<Rightarrow> real option" where
  "adjust_capital capital drawings additional_capital profit_loss =
     (case capital of
        Some c \<Rightarrow> Some (c + additional_capital - drawings + profit_loss)
      | None \<Rightarrow> None)"

text \<open>The \<^verbatim>\<open>if assets is None: ... elif liabilities is None: ... elif capital is None: ...\<close>
  chain that fills the dictionary.\<close>

definition apply_equation ::
  "real option \<Rightarrow> real option \<Rightarrow> real option \<Rightarrow> real option \<Rightarrow> real \<Rightarrow> real \<Rightarrow> real
     \<Rightarrow> (string \<rightharpoonup> real)" where
  "apply_equation assets liabilities capital adj drawings additional_capital profit_loss =
     (case assets of
        None \<Rightarrow>
          (case (liabilities, adj) of
             (Some l, Some ac) \<Rightarrow> [''Assets'' \<mapsto> l + ac]
           | _ \<Rightarrow> Map.empty)
      | Some a \<Rightarrow>
          (case liabilities of
             None \<Rightarrow>
               (case adj of
                  Some ac \<Rightarrow> [''Liabilities'' \<mapsto> a - ac]
                | None \<Rightarrow> Map.empty)
           | Some l \<Rightarrow>
               (case capital of
                  None \<Rightarrow>
                    [''Original Capital'' \<mapsto> (a - l) - additional_capital + drawings - profit_loss,
                     ''Adjusted Capital'' \<mapsto> a - l]
                | Some c \<Rightarrow> Map.empty)))"

text \<open>Step 3: entered only when the three final values are all truthy.\<close>

definition verify :: "real option \<Rightarrow> real option \<Rightarrow> real option \<Rightarrow> verdict option" where
  "verify final_assets final_liabilities final_capital =
     (case (final_assets, final_liabilities, final_capital) of
        (Some a, Some l, Some c) \<Rightarrow>
          (if a \<noteq> 0 \<and> l \<noteq> 0 \<and> c \<noteq> 0
           then Some (if \<bar>a - (l + c)\<bar> < 0.01 then Verified else EquationImbalance)
           else None)
      | _ \<Rightarrow> None)"

definition solve_equation ::
  "real option \<Rightarrow> real option \<Rightarrow> real option \<Rightarrow> real \<Rightarrow> real \<Rightarrow> real
     \<Rightarrow> error + solve_result" where
  "solve_equation assets liabilities capital drawings additional_capital profit_loss =
     (if known_values assets liabilities capital < 2 then Inl InsufficientKnownValues
      else
        let adj = adjust_capital capital drawings additional_capital profit_loss;
            sol = apply_equation assets liabilities capital adj
                    drawings additional_capital profit_loss;
            final_assets = py_or assets (sol ''Assets'');
            final_liabilities = py_or liabilities (sol ''Liabilities'');
            final_capital = py_or adj (sol ''Adjusted Capital'')
        in Inr \<lparr> adjusted_capital = adj,
                 solution = sol,
                 verification = verify final_assets final_liabilities final_capital \<rparr>)"

section \<open>The GST calculator\<close>

text \<open>
  State names arrive from text-input widgets as strings (empty when nothing was typed).
  Strings are modelled as \<^typ>\<open>string\<close> over ASCII: \<^verbatim>\<open>str.strip()\<close> removes the
  leading and trailing characters for which \<^verbatim>\<open>str.isspace\<close> holds, \<^verbatim>\<open>str.lower()\<close>
  maps \<^verbatim>\<open>A\<close>--\<^verbatim>\<open>Z\<close> to \<^verbatim>\<open>a\<close>--\<^verbatim>\<open>z\<close>.
\<close>

definition isspace :: "char \<Rightarrow> bool" where
  "isspace c = (let n = (of_char c :: nat) in (9 \<le> n \<and> n \<le> 13) \<or> (28 \<le> n \<and> n \<le> 32))"

definition strip :: "string \<Rightarrow> string" where
  "strip s = rev (dropWhile isspace (rev (dropWhile isspace s)))"

definition lower_char :: "char \<Rightarrow> char" where
  "lower_char c =
     (let n = (of_char c :: nat) in if 65 \<le> n \<and> n \<le> 90 then char_of (n + 32) else c)"

definition lower :: "string \<Rightarrow> string" where
  "lower s = map lower_char s"

text \<open>The jurisdiction test at the head of \<^verbatim>\<open>calculate_and_display_gst\<close>; a non-empty
  string is truthy.\<close>

definition determine_interstate :: "string \<Rightarrow> string \<Rightarrow> string \<Rightarrow> bool" where
  "determine_interstate transaction_type from_state to_state =
     (if from_state \<noteq> [] \<and> to_state \<noteq> []
           \<and> lower (strip from_state) \<noteq> lower (strip to_state) then True
      else if transaction_type = ''Interstate (Between States)'' then True
      else False)"

text \<open>\<^verbatim>\<open>x / y\<close> on floats raises \<^verbatim>\<open>ZeroDivisionError\<close> when \<^verbatim>\<open>y\<close> is zero.\<close>

definition py_truediv :: "real \<Rightarrow> real \<Rightarrow> error + real" where
  "py_truediv x y = (if y = 0 then Inl ZeroDivisionError else Inr (x / y))"

record gst_result =
  is_interstate :: bool
  basic_amount :: real
  gst_amount :: real
  total_amount :: real
  cgst :: real
  sgst :: real
  igst :: real

text \<open>The basic amount and the tax, by amount type.  The division is the only operation
  of the routine that can raise; the exception is not caught.\<close>

definition basic_and_gst :: "real \<Rightarrow> real \<Rightarrow> string \<Rightarrow> error + real \<times> real" where
  "basic_and_gst amount gst_rate amount_type =
     (if amount_type = ''Inclusive of GST'' then
        (case py_truediv amount (1 + gst_rate / 100) of
           Inl e \<Rightarrow> Inl e
         | Inr basic \<Rightarrow> Inr (basic, amount - basic))
      else Inr (amount, amount * (gst_rate / 100)))"

text \<open>The HSN code, the description and the reverse-charge flag of the source only
  select what is displayed next to the figures and are left out.\<close>

definition calculate_and_display_gst ::
  "real \<Rightarrow> real \<Rightarrow> string \<Rightarrow> string \<Rightarrow> string \<Rightarrow> string \<Rightarrow> error + gst_result" where
  "calculate_and_display_gst amount gst_rate amount_type transaction_type from_state to_state =
     (let interstate = determine_interstate transaction_type from_state to_state in
      case basic_and_gst amount gst_rate amount_type of
        Inl e \<Rightarrow> Inl e
      | Inr (basic, gst) \<Rightarrow>
          Inr \<lparr> is_interstate = interstate,
                basic_amount = basic,
                gst_amount = gst,
                total_amount = basic + gst,
                cgst = (if interstate then 0 else gst / 2),
                sgst = (if interstate then 0 else gst / 2),
                igst = (if interstate then gst else 0) \<rparr>)"

section \<open>Journal entries\<close>

text \<open>An entry of a journal is the dictionary
  \<^verbatim>\<open>{'Account': ..., 'Dr_Amount': ..., 'Cr_Amount': ...}\<close>.\<close>

record posting =
  Account :: string
  Dr_Amount :: real
  Cr_Amount :: real

text \<open>\<^verbatim>\<open>s or fallback\<close> on strings: the empty string is falsy.\<close>

definition str_or :: "string \<Rightarrow> string \<Rightarrow> string" where
  "str_or s fallback = (if s \<noteq> [] then s else fallback)"

text \<open>The GST rate of a purchase or sale comes from a select box over
  \<^verbatim>\<open>[5, 12, 18, 28]\<close>, shown only when the \<^verbatim>\<open>Include GST\<close> box is ticked; the two
  widgets together are a \<^typ>\<open>'a option\<close> over the four slabs.\<close>

datatype gst_slab = Slab5 | Slab12 | Slab18 | Slab28

fun slab_rate :: "gst_slab \<Rightarrow> real" where
  "slab_rate Slab5 = 5"
| "slab_rate Slab12 = 12"
| "slab_rate Slab18 = 18"
| "slab_rate Slab28 = 28"

definition handle_cash_bank_transaction ::
  "string \<Rightarrow> string \<Rightarrow> string \<Rightarrow> string \<Rightarrow> real \<Rightarrow> posting list" where
  "handle_cash_bank_transaction cash_bank transaction_nature from_account to_account amount =
     (if transaction_nature = ''Receipt'' then
        [\<lparr>Account = cash_bank, Dr_Amount = amount, Cr_Amount = 0\<rparr>,
         \<lparr>Account = ''To '' @ from_account, Dr_Amount = 0, Cr_Amount = amount\<rparr>]
      else
        [\<lparr>Account = to_account, Dr_Amount = amount, Cr_Amount = 0\<rparr>,
         \<lparr>Account = ''To '' @ cash_bank, Dr_Amount = 0, Cr_Amount = amount\<rparr>])"

definition handle_purchase_transaction ::
  "string \<Rightarrow> string \<Rightarrow> string \<Rightarrow> gst_slab option \<Rightarrow> real \<Rightarrow> posting list" where
  "handle_purchase_transaction purchase_type goods_type supplier include_gst amount =
     (case include_gst of
        Some gst_rate \<Rightarrow>
          (let basic_amount = amount / (1 + slab_rate gst_rate / 100);
               gst_amount = amount - basic_amount
           in [\<lparr>Account = goods_type @ '' Purchase'', Dr_Amount = basic_amount, Cr_Amount = 0\<rparr>,
               \<lparr>Account = ''Input GST'', Dr_Amount = gst_amount, Cr_Amount = 0\<rparr>])
      | None \<Rightarrow>
          [\<lparr>Account = goods_type @ '' Purchase'', Dr_Amount = amount, Cr_Amount = 0\<rparr>])
     @ (if purchase_type = ''Credit Purchase'' then
          [\<lparr>Account = ''To '' @ str_or supplier ''Creditors'', Dr_Amount = 0, Cr_Amount = amount\<rparr>]
        else
          [\<lparr>Account = ''To Cash/Bank'', Dr_Amount = 0, Cr_Amount = amount\<rparr>])"

definition handle_sales_transaction ::
  "string \<Rightarrow> string \<Rightarrow> string \<Rightarrow> gst_slab option \<Rightarrow> real \<Rightarrow> posting list" where
  "handle_sales_transaction sales_type goods_type customer include_gst amount =
     (if sales_type = ''Credit Sales'' then
        [\<lparr>Account = str_or customer ''Debtors'', Dr_Amount = amount, Cr_Amount = 0\<rparr>]
      else
        [\<lparr>Account = ''Cash/Bank'', Dr_Amount = amount, Cr_Amount = 0\<rparr>])
     @ (case include_gst of
          Some gst_rate \<Rightarrow>
            (let basic_amount = amount / (1 + slab_rate gst_rate / 100);
                 gst_amount = amount - basic_amount
             in [\<lparr>Account = ''To '' @ goods_type @ '' Sales'', Dr_Amount = 0, Cr_Amount = basic_amount\<rparr>,
                 \<lparr>Account = ''To Output GST'', Dr_Amount = 0, Cr_Amount = gst_amount\<rparr>])
        | None \<Rightarrow>
            [\<lparr>Account = ''To '' @ goods_type @ '' Sales'', Dr_Amount = 0, Cr_Amount = amount\<rparr>])"

definition handle_expense_transaction ::
  "string \<Rightarrow> string \<Rightarrow> string \<Rightarrow> real \<Rightarrow> posting list" where
  "handle_expense_transaction expense_type payment_method creditor_name amount =
     [\<lparr>Account = expense_type @ '' Expense'', Dr_Amount = amount, Cr_Amount = 0\<rparr>]
     @ (if payment_method = ''Credit'' then
          [\<lparr>Account = ''To '' @ str_or creditor_name ''Creditors'', Dr_Amount = 0, Cr_Amount = amount\<rparr>]
        else
          [\<lparr>Account = ''To '' @ payment_method, Dr_Amount = 0, Cr_Amount = amount\<rparr>])"

definition handle_income_transaction :: "string \<Rightarrow> string \<Rightarrow> real \<Rightarrow> posting list" where
  "handle_income_transaction income_type receipt_method amount =
     [\<lparr>Account = receipt_method, Dr_Amount = amount, Cr_Amount = 0\<rparr>,
      \<lparr>Account = ''To '' @ income_type, Dr_Amount = 0, Cr_Amount = amount\<rparr>]"

definition handle_capital_transaction :: "string \<Rightarrow> string \<Rightarrow> real \<Rightarrow> posting list" where
  "handle_capital_transaction capital_type asset_type amount =
     (if capital_type \<in> set [''Capital Introduced'', ''Additional Capital''] then
        [\<lparr>Account = asset_type, Dr_Amount = amount, Cr_Amount = 0\<rparr>,
         \<lparr>Account = ''To Capital'', Dr_Amount = 0, Cr_Amount = amount\<rparr>]
      else
        [\<lparr>Account = ''Drawings'', Dr_Amount = amount, Cr_Amount = 0\<rparr>,
         \<lparr>Account = ''To '' @ asset_type, Dr_Amount = 0, Cr_Amount = amount\<rparr>])"

text \<open>
  \<^verbatim>\<open>create_predefined_entry\<close> dispatches on the transaction type to the handler, which
  reads its own widgets.  A predefined transaction is the type together with the values
  of the widgets of its handler.
\<close>

datatype transaction =
    Cash_Bank_Transaction string string string string
  | Purchase_Transaction string string string "gst_slab option"
  | Sales_Transaction string string string "gst_slab option"
  | Expense_Transaction string string string
  | Income_Transaction string string
  | Capital_Transaction string string

fun create_predefined_entry :: "transaction \<Rightarrow> real \<Rightarrow> posting list" where
  "create_predefined_entry (Cash_Bank_Transaction cash_bank nature from_account to_account) amount =
     handle_cash_bank_transaction cash_bank nature from_account to_account amount"
| "create_predefined_entry (Purchase_Transaction purchase_type goods_type supplier include_gst) amount =
     handle_purchase_transaction purchase_type goods_type supplier include_gst amount"
| "create_predefined_entry (Sales_Transaction sales_type goods_type customer include_gst) amount =
     handle_sales_transaction sales_type goods_type customer include_gst amount"
| "create_predefined_entry (Expense_Transaction expense_type payment_method creditor_name) amount =
     handle_expense_transaction expense_type payment_method creditor_name amount"
| "create_predefined_entry (Income_Transaction income_type receipt_method) amount =
     handle_income_transaction income_type receipt_method amount"
| "create_predefined_entry (Capital_Transaction capital_type asset_type) amount =
     handle_capital_transaction capital_type asset_type amount"

text \<open>The running totals of the loop of \<^verbatim>\<open>display_journal_entry\<close>, which start at
  \<^verbatim>\<open>0\<close> and take the entries in order, and the verdict shown under the table.  The
  date and the narration only label the table and are left out.\<close>

fun accumulate :: "real \<times> real \<Rightarrow> posting list \<Rightarrow> real \<times> real" where
  "accumulate (total_dr, total_cr) [] = (total_dr, total_cr)"
| "accumulate (total_dr, total_cr) (entry # entries) =
     accumulate (total_dr + Dr_Amount entry, total_cr + Cr_Amount entry) entries"

record journal_display =
  total_dr :: real
  total_cr :: real
  balanced :: bool

definition display_journal_entry :: "posting list \<Rightarrow> journal_display" where
  "display_journal_entry entries =
     (case accumulate (0, 0) entries of
        (dr, cr) \<Rightarrow> \<lparr>total_dr = dr, total_cr = cr, balanced = (\<bar>dr - cr\<bar> < 0.01)\<rparr>)"



text \<open>The two properties of a generated entry: every posting is a debit line or a credit
  line, and the totals shown under the entry agree and are reported as balanced.\<close>

definition one_sided :: "posting \<Rightarrow> bool" where
  "one_sided p = ((Dr_Amount p \<noteq> 0 \<and> Cr_Amount p = 0) \<or> (Dr_Amount p = 0 \<and> Cr_Amount p \<noteq> 0))"

definition well_formed :: "posting list \<Rightarrow> bool" where
  "well_formed es =
     ((\<forall>p \<in> set es. one_sided p)
      \<and> total_dr (display_journal_entry es) = total_cr (display_journal_entry es)
      \<and> balanced (display_journal_entry es))"

section \<open>Currency formatting\<close>

text \<open>
  \<^verbatim>\<open>format_currency\<close> accepts any object.  What matters of it is whether
  \<^verbatim>\<open>float(amount)\<close> returns a number or raises \<^verbatim>\<open>ValueError\<close> or \<^verbatim>\<open>TypeError\<close>:
  \<open>Number x\<close> is an input that converts to \<open>x\<close>, \<open>NonNumeric\<close> one for which the
  conversion raises (\<^verbatim>\<open>None\<close>, a string that is no number).  A string that is a number
  behaves as that number, since the general path writes zero as the first test does.
\<close>

datatype py_value = Number real | NonNumeric

datatype conversion_error = ValueError_or_TypeError

definition py_float :: "py_value \<Rightarrow> conversion_error + real" where
  "py_float v = (case v of Number x \<Rightarrow> Inr x | NonNumeric \<Rightarrow> Inl ValueError_or_TypeError)"

text \<open>The rupee sign U+20B9, as its three UTF-8 bytes.\<close>

definition rupee :: string where
  "rupee = [CHR 0xE2, CHR 0x82, CHR 0xB9]"

text \<open>\<^verbatim>\<open>s.rstrip(c)\<close> for a single character \<^verbatim>\<open>c\<close>.\<close>

definition rstrip :: "char \<Rightarrow> string \<Rightarrow> string" where
  "rstrip c s = rev (dropWhile (\<lambda>x. x = c) (rev s))"

text \<open>
  The format specification \<^verbatim>\<open>,.2f\<close>: the value rounded to two decimals (a tie goes to
  the even neighbour), the integer part in decimal digits with a comma before every
  group of three, a point, and two fractional digits.
\<close>

definition round_half_even :: "real \<Rightarrow> int" where
  "round_half_even x =
     (let f = \<lfloor>x\<rfloor>; d = x - of_int f
      in if d < 1 / 2 then f else if 1 / 2 < d then f + 1 else if even f then f else f + 1)"

definition digit_char :: "nat \<Rightarrow> char" where
  "digit_char d = ''0123456789'' ! d"

function digits :: "nat \<Rightarrow> string" where
  "digits n = (if n < 10 then [digit_char n] else digits (n div 10) @ [digit_char (n mod 10)])"
  by pat_completeness auto
termination
  by (relation "measure id") auto

declare digits.simps [simp del]

function group_thousands :: "string \<Rightarrow> string" where
  "group_thousands ds =
     (if length ds \<le> 3 then ds
      else group_thousands (take (length ds - 3) ds) @ [CHR '',''] @ drop (length ds - 3) ds)"
  by pat_completeness auto
termination
  by (relation "measure length") auto

declare group_thousands.simps [simp del]

definition format_2f :: "real \<Rightarrow> string" where
  "format_2f x =
     (let n = nat (round_half_even (\<bar>x\<bar> * 100))
      in (if x < 0 then [CHR ''-''] else [])
         @ group_thousands (digits (n div 100))
         @ [CHR ''.'', digit_char (n div 10 mod 10), digit_char (n mod 10)])"

definition zero_rendering :: "bool \<Rightarrow> string" where
  "zero_rendering show_symbol = (if show_symbol then rupee @ ''0'' else ''0'')"

text \<open>The \<^verbatim>\<open>if amount >= 10000000: ... elif amount >= 100000: ... else: ...\<close> chain
  of \<^verbatim>\<open>format_currency\<close>, on the absolute value.\<close>

definition format_magnitude :: "real \<Rightarrow> string" where
  "format_magnitude a =
     (if a \<ge> 10000000 then
        rstrip CHR ''.'' (rstrip CHR ''0'' (format_2f (a / 10000000))) @ '' Cr''
      else if a \<ge> 100000 then
        rstrip CHR ''.'' (rstrip CHR ''0'' (format_2f (a / 100000))) @ '' L''
      else
        rstrip CHR ''.'' (rstrip CHR ''0'' (format_2f a)))"

definition format_currency :: "py_value \<Rightarrow> bool \<Rightarrow> string" where
  "format_currency amount show_symbol =
     (if amount = Number 0 then zero_rendering show_symbol
      else
        case py_float amount of
          Inl e \<Rightarrow> zero_rendering show_symbol
        | Inr x \<Rightarrow>
            (let is_negative = x < 0;
                 a = \<bar>x\<bar>;
                 formatted = format_magnitude a;
                 formatted = (if show_symbol then rupee @ formatted else formatted);
                 formatted = (if is_negative then [CHR ''-''] @ formatted else formatted)
             in formatted))"




section \<open>Properties of the equation solver\<close>

lemmas solve_defs = Let_def solve_equation_def known_values_def truthy_def py_or_def
  adjust_capital_def apply_equation_def verify_def

text \<open>
  Claim C1, as stated, says that the missing term is computed by the formulas for every
  input with exactly one of assets, liabilities and capital absent.  The solver counts a
  supplied zero as unknown, so with assets 200000, liabilities absent and capital 0 it
  stops with \<open>InsufficientKnownValues\<close> and computes no liabilities.
\<close>

theorem solve_equation_zero_capital_counterexample:
  "solve_equation (Some 200000) None (Some 0) 0 0 0 = Inl InsufficientKnownValues
   \<and> \<not> (\<exists>r. solve_equation (Some 200000) None (Some 0) 0 0 0 = Inr r
            \<and> solution r ''Liabilities'' = Some (200000 - (0 + 0 - 0 + 0)))"
  by (simp add: solve_defs)

text \<open>
  Claim C1, amended: when exactly one of assets, liabilities and capital is absent and
  the other two are supplied and non-zero, the solver computes the missing term by the
  formulas.  With capital present the adjusted capital is
  \<open>capital + additional_capital - drawings + profit_loss\<close>; absent assets are
  \<open>liabilities + adjusted capital\<close>; absent liabilities are \<open>assets - adjusted capital\<close>;
  with capital absent the adjusted capital is \<open>assets - liabilities\<close> and the original
  capital is \<open>adjusted capital - additional_capital + drawings - profit_loss\<close>.
\<close>

theorem solve_equation_formulas:
  "(l \<noteq> 0 \<and> c \<noteq> 0 \<longrightarrow>
      (\<exists>r. solve_equation None (Some l) (Some c) d ac pl = Inr r
         \<and> adjusted_capital r = Some (c + ac - d + pl)
         \<and> solution r ''Assets'' = Some (l + (c + ac - d + pl))))
   \<and> (a \<noteq> 0 \<and> c \<noteq> 0 \<longrightarrow>
      (\<exists>r. solve_equation (Some a) None (Some c) d ac pl = Inr r
         \<and> adjusted_capital r = Some (c + ac - d + pl)
         \<and> solution r ''Liabilities'' = Some (a - (c + ac - d + pl))))
   \<and> (a \<noteq> 0 \<and> l \<noteq> 0 \<longrightarrow>
      (\<exists>r. solve_equation (Some a) (Some l) None d ac pl = Inr r
         \<and> adjusted_capital r = None
         \<and> solution r ''Adjusted Capital'' = Some (a - l)
         \<and> solution r ''Original Capital'' = Some ((a - l) - ac + d - pl)))"
  by (simp add: solve_defs)

theorem solve_equation_formulas_witness:
  "(\<exists>r. solve_equation None (Some 50000) (Some 150000) 30000 10000 20000 = Inr r
         \<and> adjusted_capital r = Some 150000
         \<and> solution r ''Assets'' = Some 200000)
   \<and> (\<exists>r. solve_equation (Some 200000) None (Some 150000) 30000 10000 20000 = Inr r
         \<and> adjusted_capital r = Some 150000
         \<and> solution r ''Liabilities'' = Some 50000)
   \<and> (\<exists>r. solve_equation (Some 200000) (Some 50000) None 30000 10000 20000 = Inr r
         \<and> adjusted_capital r = None
         \<and> solution r ''Adjusted Capital'' = Some 150000
         \<and> solution r ''Original Capital'' = Some 150000)"
  using solve_equation_formulas
          [where a = 200000 and l = 50000 and c = 150000 and d = 30000 and ac = 10000 and pl = 20000]
  by simp

text \<open>
  Claim C2, as stated, says that the solver fails exactly when fewer than two of the three
  values are supplied, a supplied zero included among the supplied.  With assets absent,
  liabilities 0 and capital 150000 two values are supplied and the solver fails.
\<close>

theorem solve_equation_supplied_zero_counterexample:
  "solve_equation None (Some 0) (Some 150000) 0 0 0 = Inl InsufficientKnownValues"
  by (simp add: solve_defs)

text \<open>
  Claim C2, amended: the solver fails with \<open>InsufficientKnownValues\<close>, before any
  computation, exactly when fewer than two of assets, liabilities and capital are
  supplied and non-zero; whenever at least two of them are supplied and non-zero it
  returns a result, in which the term that is absent, if one is, has been computed.
\<close>

theorem solve_equation_gate:
  "((solve_equation a l c d ac pl = Inl InsufficientKnownValues) =
      (\<not> ((truthy a \<and> truthy l) \<or> (truthy a \<and> truthy c) \<or> (truthy l \<and> truthy c))))
   \<and> ((truthy a \<and> truthy l) \<or> (truthy a \<and> truthy c) \<or> (truthy l \<and> truthy c) \<longrightarrow>
        (\<exists>r. solve_equation a l c d ac pl = Inr r
           \<and> (a = None \<longrightarrow> solution r ''Assets'' \<noteq> None)
           \<and> (l = None \<longrightarrow> solution r ''Liabilities'' \<noteq> None)
           \<and> (c = None \<longrightarrow> solution r ''Adjusted Capital'' \<noteq> None
                  \<and> solution r ''Original Capital'' \<noteq> None)))"
  by (cases a; cases l; cases c) (simp_all add: solve_defs)

theorem solve_equation_gate_witness:
  "truthy (Some 50000) \<and> truthy (Some 150000)
   \<and> solve_equation None (Some 50000) (Some 150000) 0 0 0 \<noteq> Inl InsufficientKnownValues
   \<and> (\<exists>r. solve_equation None (Some 50000) (Some 150000) 0 0 0 = Inr r
           \<and> solution r ''Assets'' \<noteq> None)"
  using solve_equation_gate [of None "Some 50000" "Some 150000" 0 0 0]
  by (simp add: truthy_def)




section \<open>Properties of the GST calculator\<close>

lemmas gst_defs = Let_def calculate_and_display_gst_def basic_and_gst_def py_truediv_def

text \<open>
  Claim C4: for every amount and every legal rate the calculation succeeds; an
  inclusive amount gives \<open>basic = amount / (1 + rate / 100)\<close> and
  \<open>tax = amount - basic\<close>, an exclusive amount gives \<open>basic = amount\<close> and
  \<open>tax = amount * rate / 100\<close>, and the total is \<open>basic + tax\<close>.  At rate 0 there is no
  division by zero, the basic amount is the amount and every tax component is 0.
\<close>

theorem tax_amounts:
  "rate \<in> {0, 5, 12, 18, 28} \<Longrightarrow>
     \<exists>r. calculate_and_display_gst amount rate amount_type tt fs ts = Inr r
       \<and> (amount_type = ''Inclusive of GST'' \<longrightarrow>
            basic_amount r = amount / (1 + rate / 100) \<and> gst_amount r = amount - basic_amount r)
       \<and> (amount_type \<noteq> ''Inclusive of GST'' \<longrightarrow>
            basic_amount r = amount \<and> gst_amount r = amount * rate / 100)
       \<and> total_amount r = basic_amount r + gst_amount r
       \<and> (rate = 0 \<longrightarrow> basic_amount r = amount \<and> gst_amount r = 0
              \<and> cgst r = 0 \<and> sgst r = 0 \<and> igst r = 0)"
  by (auto simp add: gst_defs)

theorem tax_amounts_witness:
  "(18::real) \<in> {0, 5, 12, 18, 28}
   \<and> (\<exists>r. calculate_and_display_gst 1180 18 ''Inclusive of GST'' [] [] [] = Inr r
         \<and> basic_amount r = 1000 \<and> gst_amount r = 180 \<and> total_amount r = 1180)"
  using tax_amounts [of 18 1180 "''Inclusive of GST''" "[]" "[]" "[]"]
  by auto



text \<open>
  Claim C5, as stated, says that for any legal rate exactly one of the CGST and SGST pair
  and IGST is non-zero.  At the legal rate 0 every component is 0.
\<close>

theorem gst_split_zero_rate_counterexample:
  "\<exists>r. calculate_and_display_gst 1000 0 ''Exclusive of GST'' ''Intrastate (Within State)'' [] [] = Inr r
     \<and> cgst r = 0 \<and> sgst r = 0 \<and> igst r = 0
     \<and> \<not> ((cgst r \<noteq> 0 \<and> sgst r \<noteq> 0) \<noteq> (igst r \<noteq> 0))"
  by (simp add: gst_defs)

lemma inclusive_tax_nonzero:
  assumes "0 < rate" and "0 < amount"
  shows "amount - amount / (1 + rate / 100) \<noteq> (0::real)"
proof -
  have p: "0 < 1 + rate / 100" using assms(1) by simp
  have "0 < amount * (rate / 100)" using assms by simp
  then have "amount < amount * (1 + rate / 100)" by (simp add: distrib_left)
  then have "amount / (1 + rate / 100) < amount"
    using p by (simp add: pos_divide_less_eq)
  then show ?thesis by simp
qed

lemma exclusive_tax_nonzero:
  assumes "0 < rate" and "0 < amount"
  shows "amount * (rate / 100) \<noteq> (0::real)"
  using assms by simp

text \<open>
  Claim C5, amended: for every amount \<open>> 0\<close>, every legal rate and either jurisdiction
  the calculation returns a result in which CGST + SGST + IGST is within 0.01 of the tax
  amount; if interstate then IGST is the tax amount and CGST = SGST = 0, if intrastate
  then CGST = SGST = tax amount / 2 and IGST = 0; the pair and IGST are never both
  non-zero, and exactly one of them is non-zero when the rate is not 0.
\<close>

theorem gst_split:
  assumes "rate \<in> {0, 5, 12, 18, 28}" and "0 < amount"
  shows "\<exists>r. calculate_and_display_gst amount rate amount_type tt fs ts = Inr r
     \<and> \<bar>cgst r + sgst r + igst r - gst_amount r\<bar> < 0.01
     \<and> (is_interstate r \<longrightarrow> igst r = gst_amount r \<and> cgst r = 0 \<and> sgst r = 0)
     \<and> (\<not> is_interstate r \<longrightarrow>
           cgst r = gst_amount r / 2 \<and> sgst r = gst_amount r / 2 \<and> igst r = 0)
     \<and> \<not> ((cgst r \<noteq> 0 \<or> sgst r \<noteq> 0) \<and> igst r \<noteq> 0)
     \<and> (rate \<noteq> 0 \<longrightarrow> ((cgst r \<noteq> 0 \<and> sgst r \<noteq> 0) \<noteq> (igst r \<noteq> 0)))"
proof -
  have nz: "1 + rate / 100 \<noteq> 0" using assms(1) by auto
  have pos: "rate \<noteq> 0 \<Longrightarrow> 0 < rate" using assms(1) by auto
  have "\<exists>basic gst. basic_and_gst amount rate amount_type = Inr (basic, gst)
          \<and> (rate \<noteq> 0 \<longrightarrow> gst \<noteq> 0)"
  proof (cases "amount_type = ''Inclusive of GST''")
    case True
    then have "basic_and_gst amount rate amount_type =
        Inr (amount / (1 + rate / 100), amount - amount / (1 + rate / 100))"
      using nz by (simp add: basic_and_gst_def py_truediv_def)
    then show ?thesis
      using inclusive_tax_nonzero [OF pos assms(2)] by blast
  next
    case False
    then have "basic_and_gst amount rate amount_type = Inr (amount, amount * (rate / 100))"
      by (simp add: basic_and_gst_def)
    then show ?thesis
      using exclusive_tax_nonzero [OF pos assms(2)] by blast
  qed
  then obtain basic gst
    where b: "basic_and_gst amount rate amount_type = Inr (basic, gst)"
      and g: "rate \<noteq> 0 \<longrightarrow> gst \<noteq> 0"
    by blast
  show ?thesis
    unfolding calculate_and_display_gst_def Let_def b using g by simp
qed

theorem gst_split_witness:
  "(18::real) \<in> {0, 5, 12, 18, 28} \<and> (0::real) < 1000
   \<and> (\<exists>r. calculate_and_display_gst 1000 18 ''Exclusive of GST''
             ''Intrastate (Within State)'' [] [] = Inr r
         \<and> \<not> is_interstate r \<and> cgst r = 90 \<and> sgst r = 90 \<and> igst r = 0)
   \<and> (\<exists>r. calculate_and_display_gst 1000 18 ''Exclusive of GST''
             ''Interstate (Between States)'' [] [] = Inr r
         \<and> is_interstate r \<and> cgst r = 0 \<and> sgst r = 0 \<and> igst r = 180)"
  using gst_split [of 18 1000 "''Exclusive of GST''" "''Intrastate (Within State)''" "[]" "[]"]
  by (simp add: gst_defs determine_interstate_def)

lemma is_interstate_result:
  "calculate_and_display_gst amount rate amount_type transaction_type from_state to_state = Inr r
   \<Longrightarrow> is_interstate r = determine_interstate transaction_type from_state to_state"
  by (cases "basic_and_gst amount rate amount_type")
     (auto simp add: calculate_and_display_gst_def Let_def)

lemma if_chain: "(if P then True else if Q then True else False) = (P \<or> Q)"
  by simp

lemma determine_interstate_iff:
  "determine_interstate transaction_type from_state to_state =
     ((from_state \<noteq> [] \<and> to_state \<noteq> []
         \<and> lower (strip from_state) \<noteq> lower (strip to_state))
      \<or> transaction_type = ''Interstate (Between States)'')"
  unfolding determine_interstate_def by (rule if_chain)

text \<open>
  Claim C7: the transaction is interstate when both state strings are present and differ
  after stripping and lower-casing; otherwise, and so in particular when neither state
  is given, the transaction-type selector decides.  The jurisdiction of a result of the
  calculation is the one so determined.
\<close>

theorem jurisdiction:
  "(from_state \<noteq> [] \<and> to_state \<noteq> [] \<and> lower (strip from_state) \<noteq> lower (strip to_state)
      \<longrightarrow> determine_interstate transaction_type from_state to_state)
   \<and> (\<not> (from_state \<noteq> [] \<and> to_state \<noteq> []
           \<and> lower (strip from_state) \<noteq> lower (strip to_state))
      \<longrightarrow> determine_interstate transaction_type from_state to_state
            = (transaction_type = ''Interstate (Between States)''))
   \<and> (from_state = [] \<and> to_state = []
      \<longrightarrow> determine_interstate transaction_type from_state to_state
            = (transaction_type = ''Interstate (Between States)''))
   \<and> (\<forall>r. calculate_and_display_gst amount rate amount_type transaction_type from_state to_state
             = Inr r
      \<longrightarrow> is_interstate r = determine_interstate transaction_type from_state to_state)"
  using is_interstate_result [of amount rate amount_type transaction_type from_state to_state]
    determine_interstate_iff [of transaction_type from_state to_state]
  by blast

lemma goa_kerala: "lower (strip '' Goa '') \<noteq> lower (strip ''KERALA'')"
  by code_simp

lemma goa_goa: "lower (strip '' Goa '') = lower (strip ''goa'')"
  by code_simp



lemma selector_differs: "''Intrastate (Within State)'' \<noteq> ''Interstate (Between States)''"
  by simp

theorem jurisdiction_witness:
  "('' Goa '' \<noteq> [] \<and> ''KERALA'' \<noteq> [] \<and> lower (strip '' Goa '') \<noteq> lower (strip ''KERALA''))
   \<and> determine_interstate ''Intrastate (Within State)'' '' Goa '' ''KERALA''
   \<and> \<not> determine_interstate ''Intrastate (Within State)'' '' Goa '' ''goa''
   \<and> determine_interstate ''Interstate (Between States)'' [] []"
proof -
  have n: "'' Goa '' \<noteq> []" "''KERALA'' \<noteq> []" by simp_all
  have a: "determine_interstate ''Intrastate (Within State)'' '' Goa '' ''KERALA''"
    using jurisdiction [where from_state = "'' Goa ''" and to_state = "''KERALA''"
        and transaction_type = "''Intrastate (Within State)''"] n goa_kerala
    by blast
  have b: "\<not> determine_interstate ''Intrastate (Within State)'' '' Goa '' ''goa''"
    using jurisdiction [where from_state = "'' Goa ''" and to_state = "''goa''"
        and transaction_type = "''Intrastate (Within State)''"] goa_goa selector_differs
    by blast
  have c: "determine_interstate ''Interstate (Between States)'' [] []"
    using jurisdiction [where from_state = "[]" and to_state = "[]"
        and transaction_type = "''Interstate (Between States)''"]
    by blast
  show ?thesis using n goa_kerala a b c by blast
qed

section \<open>Properties of the journal entries\<close>



lemma accumulate_eq:
  "accumulate (d, c) es = (d + sum_list (map Dr_Amount es), c + sum_list (map Cr_Amount es))"
  by (induction es arbitrary: d c) simp_all

lemma display_totals:
  "display_journal_entry es =
     \<lparr>total_dr = sum_list (map Dr_Amount es), total_cr = sum_list (map Cr_Amount es),
      balanced = (\<bar>sum_list (map Dr_Amount es) - sum_list (map Cr_Amount es)\<bar> < 0.01)\<rparr>"
  by (simp add: display_journal_entry_def accumulate_eq)




lemma slab_rate_pos: "0 < slab_rate s"
  by (cases s) simp_all

lemma gst_pair:
  assumes "0 < amount"
  shows "amount / (1 + slab_rate s / 100) \<noteq> 0"
    and "amount - amount / (1 + slab_rate s / 100) \<noteq> 0"
proof -
  have "0 < 1 + slab_rate s / 100" using slab_rate_pos [of s] by simp
  then show "amount / (1 + slab_rate s / 100) \<noteq> 0" using assms by simp
  show "amount - amount / (1 + slab_rate s / 100) \<noteq> 0"
    using inclusive_tax_nonzero [OF slab_rate_pos assms] .
qed

lemma well_formed_pair:
  "x \<noteq> 0 \<Longrightarrow> well_formed [\<lparr>Account = a, Dr_Amount = x, Cr_Amount = 0\<rparr>,
                             \<lparr>Account = b, Dr_Amount = 0, Cr_Amount = x\<rparr>]"
  by (simp add: well_formed_def one_sided_def display_totals)

lemma well_formed_purchase_gst:
  "x \<noteq> 0 \<Longrightarrow> y - x \<noteq> 0 \<Longrightarrow> y \<noteq> 0 \<Longrightarrow>
     well_formed [\<lparr>Account = a, Dr_Amount = x, Cr_Amount = 0\<rparr>,
                  \<lparr>Account = b, Dr_Amount = y - x, Cr_Amount = 0\<rparr>,
                  \<lparr>Account = c, Dr_Amount = 0, Cr_Amount = y\<rparr>]"
  by (simp add: well_formed_def one_sided_def display_totals)

lemma well_formed_sales_gst:
  "x \<noteq> 0 \<Longrightarrow> y - x \<noteq> 0 \<Longrightarrow> y \<noteq> 0 \<Longrightarrow>
     well_formed [\<lparr>Account = a, Dr_Amount = y, Cr_Amount = 0\<rparr>,
                  \<lparr>Account = b, Dr_Amount = 0, Cr_Amount = x\<rparr>,
                  \<lparr>Account = c, Dr_Amount = 0, Cr_Amount = y - x\<rparr>]"
  by (simp add: well_formed_def one_sided_def display_totals)

lemma well_formed_if_right:
  "well_formed (xs @ a) \<Longrightarrow> well_formed (xs @ b) \<Longrightarrow> well_formed (xs @ (if P then a else b))"
  by simp

lemma well_formed_if_left:
  "well_formed (a @ ys) \<Longrightarrow> well_formed (b @ ys) \<Longrightarrow> well_formed ((if P then a else b) @ ys)"
  by simp

lemma cash_bank_ok:
  "0 < amount \<Longrightarrow> well_formed (handle_cash_bank_transaction cb n f t amount)"
  by (simp add: handle_cash_bank_transaction_def well_formed_pair)

lemma purchase_ok:
  assumes "0 < amount"
  shows "well_formed (handle_purchase_transaction pt g s gst amount)"
proof (cases gst)
  case None
  then show ?thesis
    using assms by (simp add: handle_purchase_transaction_def well_formed_pair)
next
  case (Some r)
  have nz: "amount \<noteq> 0" using assms by simp
  have w: "well_formed [\<lparr>Account = a, Dr_Amount = amount / (1 + slab_rate r / 100), Cr_Amount = 0\<rparr>,
             \<lparr>Account = b, Dr_Amount = amount - amount / (1 + slab_rate r / 100), Cr_Amount = 0\<rparr>,
             \<lparr>Account = c, Dr_Amount = 0, Cr_Amount = amount\<rparr>]" for a b c
    by (rule well_formed_purchase_gst [OF gst_pair(1) [OF assms] gst_pair(2) [OF assms] nz])
  show ?thesis
    unfolding handle_purchase_transaction_def Let_def Some option.case
    by (rule well_formed_if_right; simp only: append_Cons append_Nil w)
qed

lemma sales_ok:
  assumes "0 < amount"
  shows "well_formed (handle_sales_transaction st g c gst amount)"
proof (cases gst)
  case None
  then show ?thesis
    using assms by (simp add: handle_sales_transaction_def well_formed_pair)
next
  case (Some r)
  have nz: "amount \<noteq> 0" using assms by simp
  have w: "well_formed [\<lparr>Account = a, Dr_Amount = amount, Cr_Amount = 0\<rparr>,
             \<lparr>Account = b, Dr_Amount = 0, Cr_Amount = amount / (1 + slab_rate r / 100)\<rparr>,
             \<lparr>Account = c, Dr_Amount = 0,
              Cr_Amount = amount - amount / (1 + slab_rate r / 100)\<rparr>]" for a b c
    by (rule well_formed_sales_gst [OF gst_pair(1) [OF assms] gst_pair(2) [OF assms] nz])
  show ?thesis
    unfolding handle_sales_transaction_def Let_def Some option.case
    by (rule well_formed_if_left; simp only: append_Cons append_Nil w)
qed

lemma expense_ok:
  "0 < amount \<Longrightarrow> well_formed (handle_expense_transaction e p c amount)"
  by (simp add: handle_expense_transaction_def well_formed_pair)

lemma income_ok:
  "0 < amount \<Longrightarrow> well_formed (handle_income_transaction i r amount)"
  by (simp add: handle_income_transaction_def well_formed_pair)

lemma capital_ok:
  "0 < amount \<Longrightarrow> well_formed (handle_capital_transaction c a amount)"
  unfolding handle_capital_transaction_def
  by (simp only: well_formed_pair split: if_split) (simp add: well_formed_pair)

text \<open>
  Claim C10: for every predefined transaction (cash or bank, purchase and sale with or
  without GST, expense, income, capital) and every positive amount, each generated
  posting has exactly one of its debit and credit amounts non-zero, the total of the
  debits equals the total of the credits exactly, and the balance check under the
  generated entry reports it balanced.
\<close>

theorem predefined_entries_balanced:
  assumes "0 < amount"
  shows "(\<forall>p \<in> set (create_predefined_entry t amount).
            (Dr_Amount p \<noteq> 0 \<and> Cr_Amount p = 0) \<or> (Dr_Amount p = 0 \<and> Cr_Amount p \<noteq> 0))
    \<and> total_dr (display_journal_entry (create_predefined_entry t amount))
        = total_cr (display_journal_entry (create_predefined_entry t amount))
    \<and> balanced (display_journal_entry (create_predefined_entry t amount))"
proof -
  have "well_formed (create_predefined_entry t amount)"
    using assms
    by (cases t)
       (simp_all add: cash_bank_ok purchase_ok sales_ok expense_ok income_ok capital_ok)
  then show ?thesis
    by (simp add: well_formed_def one_sided_def)
qed

theorem predefined_entries_balanced_witness:
  "(0::real) < 1180
   \<and> create_predefined_entry
         (Purchase_Transaction ''Credit Purchase'' ''Goods'' [] (Some Slab18)) 1180
       = [\<lparr>Account = ''Goods Purchase'', Dr_Amount = 1000, Cr_Amount = 0\<rparr>,
          \<lparr>Account = ''Input GST'', Dr_Amount = 180, Cr_Amount = 0\<rparr>,
          \<lparr>Account = ''To Creditors'', Dr_Amount = 0, Cr_Amount = 1180\<rparr>]
   \<and> total_dr (display_journal_entry (create_predefined_entry
         (Purchase_Transaction ''Credit Purchase'' ''Goods'' [] (Some Slab18)) 1180)) = 1180
   \<and> balanced (display_journal_entry (create_predefined_entry
         (Purchase_Transaction ''Credit Purchase'' ''Goods'' [] (Some Slab18)) 1180))"
  using predefined_entries_balanced
          [of 1180 "Purchase_Transaction ''Credit Purchase'' ''Goods'' [] (Some Slab18)"]
  by (simp add: handle_purchase_transaction_def str_or_def Let_def display_totals)

section \<open>Properties of the currency formatter\<close>













text \<open>The examples of the rules: 2.50 is written \<open>2.5\<close>, 2.00 is written \<open>2\<close>, and a
  negative amount carries its sign before the symbol.\<close>

lemmas format_defs = format_currency_def py_float_def Let_def format_magnitude_def format_2f_def
  round_half_even_def rstrip_def digit_char_def zero_rendering_def digits.simps
  group_thousands.simps

lemma format_currency_examples:
  "format_currency (Number 2.50) False = ''2.5''"
  "format_currency (Number 2.00) False = ''2''"
  "format_currency (Number 250000) False = ''2.5 L''"
  "format_currency (Number 20000000) False = ''2 Cr''"
  "format_currency (Number 12345.5) False = ''12,345.5''"
  "format_currency (Number (-500)) True = CHR ''-'' # rupee @ ''500''"
  "format_currency NonNumeric True = rupee @ ''0''"
  by (simp_all add: format_defs)

end
